theory Spec2Isabelle
  imports Main "HOL-Library.Sublist"
begin

section \<open>The values exchanged with the ArchiveChain SDK\<close>

text \<open>
  \<^verbatim>\<open>examples/basic/simple_archive.py\<close> is a command-line script around the SDK's
  \<^verbatim>\<open>ArchiveChainClient\<close>. The behaviour of the client is a parameter of every function
  below.
\<close>

text \<open>
  Modelled from the spec: the classes of the \<^verbatim>\<open>archivechain\<close> package (its exceptions,
  \<^verbatim>\<open>ArchiveMetadata\<close>, \<^verbatim>\<open>ArchiveOptions\<close>, the results of \<^verbatim>\<open>archives.create\<close> and
  \<^verbatim>\<open>archives.get\<close>, the items of the update stream) are not among the sources. Each is given
  the fields the script reads, typed as the data model of the specification describes them,
  and every field is present. An exception of the client is one of the three kinds of the
  error taxonomy, with its message; the script formats an exception with \<^verbatim>\<open>{e}\<close> only,
  which yields the message and not the class.
\<close>

datatype sdk_error = ValidationError string | TransportError string | NotFoundError string

fun message :: "sdk_error \<Rightarrow> string" where
  "message (ValidationError m) = m"
| "message (TransportError m) = m"
| "message (NotFoundError m) = m"

record archive_metadata =
  title :: string
  description :: string
  tags :: "string list"
  priority :: string

record archive_options =
  include_assets :: bool
  max_depth :: int
  preserve_javascript :: bool
  timeout :: int

record cost_estimate =
  total_cost :: int

text \<open>The acknowledgement returned by \<^verbatim>\<open>client.archives.create\<close>.\<close>

record archive_result =
  archive_id :: string
  r_status :: string
  cost_estimation :: cost_estimate

record access_urls =
  view :: string

text \<open>One item of the stream \<^verbatim>\<open>client.stream.archive_updates(archive_id)\<close>.\<close>

record update =
  u_status :: string
  progress :: int
  phase :: string
  final_size :: int
  u_access_urls :: access_urls
  error :: string

record storage_info_t =
  integrity_score :: int

text \<open>The record returned by \<^verbatim>\<open>client.archives.get\<close>.\<close>

record archive =
  a_url :: string
  a_metadata :: archive_metadata
  a_status :: string
  a_size :: int
  created_at :: string
  replicas :: "string list"
  storage_info :: storage_info_t
  a_access_urls :: access_urls

text \<open>
  Modelled from the spec: the update stream of the client is a lazy sequence that is finite.
  Pulling its next item either yields an update or raises (a transport failure while
  monitoring); the end of the list is the end of the stream. Nothing is assumed about what
  follows a terminal update.
\<close>

datatype stream_item = Yield update | Raise sdk_error

text \<open>
  Modelled from the spec: the client capability, as what each of its three remote calls
  answers: a result or an exception. Constructing the client and \<^verbatim>\<open>close()\<close> do not
  fail.
\<close>

record client =
  archives_create :: "string \<Rightarrow> archive_metadata \<Rightarrow> archive_options \<Rightarrow> sdk_error + archive_result"
  stream_archive_updates :: "string \<Rightarrow> stream_item list"
  archives_get :: "string \<Rightarrow> sdk_error + archive"

section \<open>Observable behaviour: printed lines and calls on the client\<close>

text \<open>
  Each \<^verbatim>\<open>print\<close> of the script is one constructor, carrying the values interpolated into
  its text. \<^verbatim>\<open>ArchiveStatus\<close> and \<^verbatim>\<open>ViewUrl\<close> stand for texts that occur in both
  operations.
\<close>

datatype line =
    Archiving string
  | CreatingArchive
  | ArchiveCreated
  | ArchiveId string
  | ArchiveStatus string
  | EstimatedCost int
  | MonitoringProgress
  | Progress int string
  | ArchiveFinished
  | FinalSize int
  | ViewUrl string
  | ArchivingFailed string
  | ArchiveError string
  | FetchingInfo string
  | InfoHeader
  | OriginalUrl string
  | Title string
  | Size int
  | CreatedAt string
  | Replicas nat
  | IntegrityScore int
  | RetrievalError string
  | UsageHeader
  | UsageExamples
  | UsageExampleArchive
  | UsageExampleInfo
  | KeyMissing
  | KeyHintFile
  | KeyHintLine
  | InvalidUrl

datatype client_call =
    Construct "string option" string "string option"
  | Create string archive_metadata archive_options
  | ArchiveUpdates string
  | Get string
  | Close

datatype event = Print line | Call client_call

text \<open>How a coroutine of the script ends: it returns, or \<^verbatim>\<open>sys.exit\<close> was raised in it.\<close>

datatype control = Return | SystemExit nat

type_synonym env = "string \<Rightarrow> string option"

definition getenv :: "env \<Rightarrow> string \<Rightarrow> string \<Rightarrow> string" where
  "getenv env key fallback = (case env key of None \<Rightarrow> fallback | Some v \<Rightarrow> v)"

section \<open>The monitoring loop\<close>

text \<open>
  \<^verbatim>\<open>async for update in stream\<close> with its \<^verbatim>\<open>if/elif\<close> chain. The result is the lines
  printed, the exception that left the loop if one did, and the part of the stream that was
  never pulled. Leaving the \<^verbatim>\<open>async with\<close> block around the loop is not an event of its
  own. Only exceptions below \<^verbatim>\<open>Exception\<close> are modelled; an interruption of the process is
  not.
\<close>

fun monitor :: "stream_item list \<Rightarrow> event list \<times> sdk_error option \<times> stream_item list" where
  "monitor [] = ([], None, [])"
| "monitor (Raise e # rest) = ([], Some e, rest)"
| "monitor (Yield u # rest) =
     (if u_status u = ''processing'' then
        (case monitor rest of
           (evs, raised, unread) \<Rightarrow> (Print (Progress (progress u) (phase u)) # evs, raised, unread))
      else if u_status u = ''completed'' then
        ([Print ArchiveFinished,
          Print (FinalSize (final_size u)),
          Print (ViewUrl (view (u_access_urls u)))], None, rest)
      else if u_status u = ''failed'' then
        ([Print (ArchivingFailed (error u))], None, rest)
      else monitor rest)"

section \<open>The two operations\<close>

text \<open>The letter e with an acute accent (U+00E9), which the description text contains.\<close>

definition e_acute :: string where
  "e_acute = [CHR 0xE9]"

definition default_api_url :: string where
  "default_api_url = ''https://api.archivechain.org/v1''"

text \<open>
  The two local values \<^verbatim>\<open>metadata\<close> and \<^verbatim>\<open>options\<close> of \<^verbatim>\<open>archive_url\<close>.
  \<open>loop_time\<close> is the text of \<^verbatim>\<open>asyncio.get_event_loop().time()\<close>.
\<close>

definition metadata :: "string \<Rightarrow> string \<Rightarrow> archive_metadata" where
  "metadata url loop_time =
     \<lparr>title = ''Archive de '' @ url,
      description = ''Archive automatique cr'' @ e_acute @ e_acute @ ''e le '' @ loop_time,
      tags = [''example'', ''simple'', ''python''],
      priority = ''normal''\<rparr>"

definition options :: archive_options where
  "options = \<lparr>include_assets = True, max_depth = 2, preserve_javascript = False, timeout = 30\<rparr>"

text \<open>
  \<^verbatim>\<open>archive_url(url)\<close>. The client is constructed before the \<^verbatim>\<open>try\<close>. The body of the
  \<^verbatim>\<open>try\<close> gives its events and the exception that left it, if one did; the handler of
  \<^verbatim>\<open>except Exception\<close> prints and raises \<^verbatim>\<open>SystemExit(1)\<close>; the \<^verbatim>\<open>finally\<close> clause
  closes the client on both ways out.
\<close>

definition archive_url :: "env \<Rightarrow> string \<Rightarrow> string \<Rightarrow> client \<Rightarrow> event list \<times> control" where
  "archive_url env url loop_time client =
     (let construct = Call (Construct (env ''ARCHIVECHAIN_API_KEY'')
                              (getenv env ''ARCHIVECHAIN_API_URL'' default_api_url)
                              (Some (getenv env ''ARCHIVECHAIN_NETWORK'' ''mainnet'')));
          submitted = [Print (Archiving url), Print CreatingArchive,
                       Call (Create url (metadata url loop_time) options)];
          (body, raised) =
            (case archives_create client url (metadata url loop_time) options of
               Inl e \<Rightarrow> (submitted, Some e)
             | Inr archive_result \<Rightarrow>
                 (case monitor (stream_archive_updates client (archive_id archive_result)) of
                    (evs, raised, unread) \<Rightarrow>
                      (submitted @
                       [Print ArchiveCreated,
                        Print (ArchiveId (archive_id archive_result)),
                        Print (ArchiveStatus (r_status archive_result)),
                        Print (EstimatedCost (total_cost (cost_estimation archive_result))),
                        Print MonitoringProgress,
                        Call (ArchiveUpdates (archive_id archive_result))] @ evs, raised)))
      in case raised of
           None \<Rightarrow> (construct # body @ [Call Close], Return)
         | Some e \<Rightarrow> (construct # body @ [Print (ArchiveError (message e)), Call Close], SystemExit 1))"

text \<open>
  \<^verbatim>\<open>get_archive_info(archive_id)\<close>. The handler of \<^verbatim>\<open>except Exception\<close> only prints; the
  coroutine then returns.
\<close>

definition get_archive_info :: "env \<Rightarrow> string \<Rightarrow> client \<Rightarrow> event list \<times> control" where
  "get_archive_info env ident client =
     (let construct = Call (Construct (env ''ARCHIVECHAIN_API_KEY'')
                              (getenv env ''ARCHIVECHAIN_API_URL'' default_api_url)
                              None);
          asked = [Print (FetchingInfo ident), Call (Get ident)]
      in case archives_get client ident of
           Inl e \<Rightarrow> (construct # asked @ [Print (RetrievalError (message e)), Call Close], Return)
         | Inr a \<Rightarrow>
             (construct # asked @
              [Print InfoHeader,
               Print (OriginalUrl (a_url a)),
               Print (Title (title (a_metadata a))),
               Print (ArchiveStatus (a_status a)),
               Print (Size (a_size a)),
               Print (CreatedAt (created_at a)),
               Print (Replicas (length (replicas a))),
               Print (IntegrityScore (integrity_score (storage_info a))),
               Print (ViewUrl (view (a_access_urls a))),
               Call Close], Return))"

section \<open>The entry point\<close>

text \<open>\<^verbatim>\<open>asyncio.run\<close> of a coroutine: a \<^verbatim>\<open>SystemExit\<close> raised in it ends the process with its code.\<close>

fun run :: "event list \<times> control \<Rightarrow> event list \<times> nat" where
  "run (evs, Return) = (evs, 0)"
| "run (evs, SystemExit c) = (evs, c)"

text \<open>\<^verbatim>\<open>not api_key\<close>: the variable is unset or empty.\<close>

fun falsy :: "string option \<Rightarrow> bool" where
  "falsy None = True"
| "falsy (Some v) = (v = [])"

text \<open>\<^verbatim>\<open>str.startswith\<close> with a tuple of prefixes.\<close>

fun startswith :: "string \<Rightarrow> string list \<Rightarrow> bool" where
  "startswith s [] = False"
| "startswith s (p # ps) = (prefix p s \<or> startswith s ps)"

text \<open>
  \<^verbatim>\<open>main()\<close>, from the environment (after \<^verbatim>\<open>load_dotenv()\<close>) and \<^verbatim>\<open>sys.argv\<close> to the
  events of the run and the exit code of the process.
\<close>

definition main :: "env \<Rightarrow> string list \<Rightarrow> string \<Rightarrow> client \<Rightarrow> event list \<times> nat" where
  "main env argv loop_time client =
     (if length argv < 2 then
        ([Print UsageHeader, Print UsageExamples, Print UsageExampleArchive, Print UsageExampleInfo], 1)
      else if falsy (env ''ARCHIVECHAIN_API_KEY'') then
        ([Print KeyMissing, Print KeyHintFile, Print KeyHintLine], 1)
      else if argv ! 1 = ''info'' \<and> 3 \<le> length argv then
        run (get_archive_info env (argv ! 2) client)
      else
        (let url = argv ! 1
         in if \<not> startswith url [''http://'', ''https://''] then ([Print InvalidUrl], 1)
            else run (archive_url env url loop_time client)))"

section \<open>Vocabulary of the statements\<close>

text \<open>The calls made on the client capability during a run, and the lines printed, in order.\<close>

fun calls_of :: "event list \<Rightarrow> client_call list" where
  "calls_of [] = []"
| "calls_of (Call c # evs) = c # calls_of evs"
| "calls_of (Print l # evs) = calls_of evs"

fun printed :: "event list \<Rightarrow> line list" where
  "printed [] = []"
| "printed (Print l # evs) = l # printed evs"
| "printed (Call c # evs) = printed evs"

text \<open>A terminal update is one whose status is completed or failed.\<close>

definition terminal :: "update \<Rightarrow> bool" where
  "terminal u = (u_status u = ''completed'' \<or> u_status u = ''failed'')"

text \<open>What the loop does with one item alone.\<close>

definition report :: "stream_item \<Rightarrow> event list" where
  "report x = fst (monitor [x])"

text \<open>The requests submitted, the identifiers and the costs reported during a run.\<close>

fun submitted_requests :: "event list \<Rightarrow> (string \<times> archive_metadata \<times> archive_options) list" where
  "submitted_requests [] = []"
| "submitted_requests (Call (Create u m opts) # evs) = (u, m, opts) # submitted_requests evs"
| "submitted_requests (e # evs) = submitted_requests evs"

fun reported_ids :: "event list \<Rightarrow> string list" where
  "reported_ids [] = []"
| "reported_ids (Print (ArchiveId i) # evs) = i # reported_ids evs"
| "reported_ids (e # evs) = reported_ids evs"

fun reported_costs :: "event list \<Rightarrow> int list" where
  "reported_costs [] = []"
| "reported_costs (Print (EstimatedCost c) # evs) = c # reported_costs evs"
| "reported_costs (e # evs) = reported_costs evs"

fun is_progress :: "line \<Rightarrow> bool" where
  "is_progress (Progress p ph) = True"
| "is_progress l = False"

section \<open>Concrete runs\<close>

definition env_with_key :: env where
  "env_with_key = [''ARCHIVECHAIN_API_KEY'' \<mapsto> ''k-123'']"

definition env_without_key :: env where
  "env_without_key = Map.empty"

definition handle0 :: archive_result where
  "handle0 = \<lparr>archive_id = ''arc_1'', r_status = ''pending'', cost_estimation = \<lparr>total_cost = 7\<rparr>\<rparr>"

definition upd :: "string \<Rightarrow> int \<Rightarrow> update" where
  "upd s p = \<lparr>u_status = s, progress = p, phase = ''crawl'', final_size = 4096,
              u_access_urls = \<lparr>view = ''https://view.example/arc_1''\<rparr>, error = ''timeout''\<rparr>"

definition record0 :: archive where
  "record0 = \<lparr>a_url = ''https://example.com'', a_metadata = metadata ''https://example.com'' ''0.5'',
               a_status = ''completed'', a_size = 4096, created_at = ''2024-01-01'',
               replicas = [''r1'', ''r2'', ''r3''], storage_info = \<lparr>integrity_score = 1\<rparr>,
               a_access_urls = \<lparr>view = ''https://view.example/arc_1''\<rparr>\<rparr>"

text \<open>A client that acknowledges every submission, delivers the given stream and knows every archive.\<close>

definition client_streaming :: "stream_item list \<Rightarrow> client" where
  "client_streaming items =
     \<lparr>archives_create = (\<lambda>u m opts. Inr handle0),
      stream_archive_updates = (\<lambda>i. items),
      archives_get = (\<lambda>i. Inr record0)\<rparr>"

text \<open>A client whose lookup raises the given error.\<close>

definition client_lookup_raising :: "sdk_error \<Rightarrow> client" where
  "client_lookup_raising e =
     \<lparr>archives_create = (\<lambda>u m opts. Inr handle0),
      stream_archive_updates = (\<lambda>i. []),
      archives_get = (\<lambda>i. Inl e)\<rparr>"

section \<open>Auxiliary facts\<close>

lemma calls_of_append: "calls_of (xs @ ys) = calls_of xs @ calls_of ys"
  by (induction xs rule: calls_of.induct) auto

lemma submitted_requests_append:
  "submitted_requests (xs @ ys) = submitted_requests xs @ submitted_requests ys"
  by (induction xs rule: submitted_requests.induct) auto

lemma reported_ids_append: "reported_ids (xs @ ys) = reported_ids xs @ reported_ids ys"
  by (induction xs rule: reported_ids.induct) auto

lemma reported_costs_append: "reported_costs (xs @ ys) = reported_costs xs @ reported_costs ys"
  by (induction xs rule: reported_costs.induct) auto

text \<open>The loop only prints: it calls nothing on the client and reports no acknowledgement.\<close>

lemma monitor_calls: "monitor xs = (evs, raised, unread) \<Longrightarrow> calls_of evs = []"
  by (induction xs arbitrary: evs raised unread rule: monitor.induct)
     (auto split: prod.splits if_splits)

lemma monitor_reports_no_handle:
  "monitor xs = (evs, raised, unread) \<Longrightarrow>
     submitted_requests evs = [] \<and> reported_ids evs = [] \<and> reported_costs evs = []"
  by (induction xs arbitrary: evs raised unread rule: monitor.induct)
     (auto split: prod.splits if_splits)

text \<open>
  The handler of \<^verbatim>\<open>archive_url\<close> ends the process with code 1 when the submission raises.
\<close>

lemma archive_url_submit_raises:
  "archives_create client url (metadata url loop_time) options = Inl e \<Longrightarrow>
     snd (archive_url env url loop_time client) = SystemExit 1"
  by (simp add: archive_url_def Let_def)

section \<open>Exit codes of the two commands\<close>

text \<open>
  C1. The run of \<^verbatim>\<open>simple_archive.py https://example.com\<close> whose stream delivers a
  processing update and then a failed update with error "timeout": the failure line is
  printed, the client is closed, and the exit code of the process is 0.
\<close>

theorem archive_failed_update_exits_zero:
  "main env_with_key [''simple_archive.py'', ''https://example.com''] ''0.5''
       (client_streaming [Yield (upd ''processing'' 5), Yield (upd ''failed'' 5)])
   = ([Call (Construct (Some ''k-123'') default_api_url (Some ''mainnet'')),
       Print (Archiving ''https://example.com''), Print CreatingArchive,
       Call (Create ''https://example.com'' (metadata ''https://example.com'' ''0.5'') options),
       Print ArchiveCreated, Print (ArchiveId ''arc_1''), Print (ArchiveStatus ''pending''),
       Print (EstimatedCost 7), Print MonitoringProgress, Call (ArchiveUpdates ''arc_1''),
       Print (Progress 5 ''crawl''), Print (ArchivingFailed ''timeout''), Call Close], 0)"
  by (simp add: main_def archive_url_def Let_def client_streaming_def env_with_key_def getenv_def
        handle0_def upd_def)

text \<open>
  C2. The run of \<^verbatim>\<open>simple_archive.py info unknown-id\<close> against a client whose lookup raises
  NotFoundError: the retrieval-error line is printed, the client is closed, and the exit code
  of the process is 0.
\<close>

theorem info_lookup_error_exits_zero:
  "main env_with_key [''simple_archive.py'', ''info'', ''unknown-id''] ''0.5''
       (client_lookup_raising (NotFoundError ''no such archive''))
   = ([Call (Construct (Some ''k-123'') default_api_url None),
       Print (FetchingInfo ''unknown-id''), Call (Get ''unknown-id''),
       Print (RetrievalError ''no such archive''), Call Close], 0)"
  by (simp add: main_def get_archive_info_def client_lookup_raising_def env_with_key_def getenv_def)

section \<open>Checks made before the client exists\<close>

text \<open>
  C3. On the archive path of \<^verbatim>\<open>main\<close> (an API key is set and the arguments are not the
  info command), a url that starts with neither "http://" nor "https://" ends the run with
  the invalid-url message alone and exit code 1: no client is constructed and no call is made
  on one.
\<close>

theorem invalid_url_rejected_without_client_calls:
  assumes "2 \<le> length argv"
    and "\<not> falsy (env ''ARCHIVECHAIN_API_KEY'')"
    and "\<not> (argv ! 1 = ''info'' \<and> 3 \<le> length argv)"
    and "\<not> startswith (argv ! 1) [''http://'', ''https://'']"
  shows "main env argv loop_time client = ([Print InvalidUrl], 1)
       \<and> calls_of (fst (main env argv loop_time client)) = []"
  using assms by (auto simp add: main_def Let_def)

theorem invalid_url_rejected_without_client_calls_witness:
  "2 \<le> length [''simple_archive.py'', ''ftp://example.com'']
   \<and> \<not> falsy (env_with_key ''ARCHIVECHAIN_API_KEY'')
   \<and> \<not> startswith ([''simple_archive.py'', ''ftp://example.com''] ! 1) [''http://'', ''https://'']
   \<and> main env_with_key [''simple_archive.py'', ''ftp://example.com''] ''0.5'' (client_streaming [])
       = ([Print InvalidUrl], 1)
   \<and> calls_of (fst (main env_with_key [''simple_archive.py'', ''ftp://example.com''] ''0.5''
         (client_streaming []))) = []"
  using invalid_url_rejected_without_client_calls
          [of "[''simple_archive.py'', ''ftp://example.com'']" env_with_key "''0.5''" "client_streaming []"]
  by (simp add: env_with_key_def)

text \<open>
  C4. When the API key is unset or empty, \<^verbatim>\<open>main\<close> ends with exit code 1 and no call on the
  client, whatever the arguments are (archive command, info command or none).
\<close>

theorem missing_api_key_exits_before_client_calls:
  assumes "falsy (env ''ARCHIVECHAIN_API_KEY'')"
  shows "snd (main env argv loop_time client) = 1
       \<and> calls_of (fst (main env argv loop_time client)) = []"
  using assms by (simp add: main_def)

theorem missing_api_key_exits_before_client_calls_witness:
  "falsy (env_without_key ''ARCHIVECHAIN_API_KEY'')
   \<and> main env_without_key [''simple_archive.py'', ''info'', ''arc_1''] ''0.5'' (client_streaming [])
       = ([Print KeyMissing, Print KeyHintFile, Print KeyHintLine], 1)
   \<and> snd (main env_without_key [''simple_archive.py'', ''https://example.com''] ''0.5''
         (client_streaming [])) = 1
   \<and> calls_of (fst (main env_without_key [''simple_archive.py'', ''https://example.com''] ''0.5''
         (client_streaming []))) = []"
  using missing_api_key_exits_before_client_calls
          [of env_without_key "[''simple_archive.py'', ''https://example.com'']" "''0.5''"
              "client_streaming []"]
  by (simp add: env_without_key_def main_def)

section \<open>The monitoring loop\<close>

text \<open>
  C5. When the stream is a run \<open>pre\<close> of updates that are not terminal, then a terminal update
  \<open>t\<close>, then anything: the loop reports the updates of \<open>pre\<close> one after the other in the order
  of delivery, then \<open>t\<close>, and ends there without an exception; all that follows \<open>t\<close> is left
  unread and nothing is reported for it.
\<close>

theorem monitor_stops_at_first_terminal:
  assumes "\<forall>x \<in> set pre. \<exists>u. x = Yield u \<and> \<not> terminal u"
    and "terminal t"
  shows "monitor (pre @ Yield t # rest) = (concat (map report pre) @ report (Yield t), None, rest)"
  using assms
proof (induction pre)
  case Nil
  then show ?case by (auto simp: terminal_def report_def)
next
  case (Cons x pre)
  then obtain u where u: "x = Yield u" "\<not> terminal u" by auto
  from Cons have IH:
    "monitor (pre @ Yield t # rest) = (concat (map report pre) @ report (Yield t), None, rest)"
    by simp
  show ?case
  proof (cases "u_status u = ''processing''")
    case True
    then have "monitor ((x # pre) @ Yield t # rest) =
        (Print (Progress (progress u) (phase u)) # concat (map report pre) @ report (Yield t),
         None, rest)"
      using u IH by simp
    moreover have "report x = [Print (Progress (progress u) (phase u))]"
      using u True by (simp add: report_def)
    ultimately show ?thesis by simp
  next
    case False
    then have "monitor ((x # pre) @ Yield t # rest) = monitor (pre @ Yield t # rest)"
      using u by (simp add: terminal_def)
    moreover have "report x = []"
      using u False by (simp add: report_def terminal_def)
    ultimately show ?thesis using IH by simp
  qed
qed

theorem monitor_stops_at_first_terminal_witness:
  "\<not> terminal (upd ''processing'' 10) \<and> \<not> terminal (upd ''pending'' 0)
   \<and> terminal (upd ''failed'' 10)
   \<and> monitor ([Yield (upd ''processing'' 10), Yield (upd ''pending'' 0)]
        @ Yield (upd ''failed'' 10) # [Yield (upd ''processing'' 99), Yield (upd ''completed'' 100)])
     = ([Print (Progress 10 ''crawl''), Print (ArchivingFailed ''timeout'')], None,
        [Yield (upd ''processing'' 99), Yield (upd ''completed'' 100)])"
  using monitor_stops_at_first_terminal
          [of "[Yield (upd ''processing'' 10), Yield (upd ''pending'' 0)]" "upd ''failed'' 10"
              "[Yield (upd ''processing'' 99), Yield (upd ''completed'' 100)]"]
  by (simp add: terminal_def upd_def report_def)

text \<open>
  C10. An update whose status is none of "processing", "completed" and "failed" changes
  nothing: the loop prints nothing for it and goes on with the rest of the stream, with the
  result it has on that rest.
\<close>

theorem monitor_skips_other_status:
  assumes "u_status u \<notin> {''processing'', ''completed'', ''failed''}"
  shows "monitor (Yield u # rest) = monitor rest"
  using assms by simp

theorem monitor_skips_other_status_witness:
  "u_status (upd ''pending'' 0) \<notin> {''processing'', ''completed'', ''failed''}
   \<and> monitor (Yield (upd ''pending'' 0) # [Yield (upd ''processing'' 10)])
       = ([Print (Progress 10 ''crawl'')], None, [])"
  using monitor_skips_other_status [of "upd ''pending'' 0" "[Yield (upd ''processing'' 10)]"]
  by (simp add: upd_def)

text \<open>
  C8, as the script behaves. For the stream of a processing update at 10, a processing
  update at 55 and a completed update with final size 4096 and view URL \<open>U\<close>, the run of
  \<^verbatim>\<open>main\<close> on a valid url prints, after the acknowledgement, two progress lines (10 and 55),
  then the completion line, the final size 4096 and the view URL \<open>U\<close>, closes the client and
  exits with code 0.
\<close>

theorem example_stream_reports_and_exit:
  assumes "\<not> falsy (env ''ARCHIVECHAIN_API_KEY'')"
    and "startswith url [''http://'', ''https://'']"
    and "archives_create client url (metadata url loop_time) options = Inr h"
    and "stream_archive_updates client (archive_id h) = [Yield u1, Yield u2, Yield u3]"
    and "u_status u1 = ''processing''" and "progress u1 = 10"
    and "u_status u2 = ''processing''" and "progress u2 = 55"
    and "u_status u3 = ''completed''" and "final_size u3 = 4096"
    and "view (u_access_urls u3) = U"
  shows "main env [prog, url] loop_time client =
     ([Call (Construct (env ''ARCHIVECHAIN_API_KEY'')
                (getenv env ''ARCHIVECHAIN_API_URL'' default_api_url)
                (Some (getenv env ''ARCHIVECHAIN_NETWORK'' ''mainnet''))),
       Print (Archiving url), Print CreatingArchive,
       Call (Create url (metadata url loop_time) options),
       Print ArchiveCreated, Print (ArchiveId (archive_id h)), Print (ArchiveStatus (r_status h)),
       Print (EstimatedCost (total_cost (cost_estimation h))), Print MonitoringProgress,
       Call (ArchiveUpdates (archive_id h)),
       Print (Progress 10 (phase u1)), Print (Progress 55 (phase u2)),
       Print ArchiveFinished, Print (FinalSize 4096), Print (ViewUrl U), Call Close], 0)"
  using assms by (simp add: main_def archive_url_def Let_def)

theorem example_stream_reports_and_exit_witness:
  "\<not> falsy (env_with_key ''ARCHIVECHAIN_API_KEY'')
   \<and> startswith ''https://example.com'' [''http://'', ''https://'']
   \<and> main env_with_key [''simple_archive.py'', ''https://example.com''] ''0.5''
        (client_streaming [Yield (upd ''processing'' 10), Yield (upd ''processing'' 55),
                           Yield (upd ''completed'' 100)]) =
     ([Call (Construct (Some ''k-123'') default_api_url (Some ''mainnet'')),
       Print (Archiving ''https://example.com''), Print CreatingArchive,
       Call (Create ''https://example.com'' (metadata ''https://example.com'' ''0.5'') options),
       Print ArchiveCreated, Print (ArchiveId ''arc_1''), Print (ArchiveStatus ''pending''),
       Print (EstimatedCost 7), Print MonitoringProgress, Call (ArchiveUpdates ''arc_1''),
       Print (Progress 10 ''crawl''), Print (Progress 55 ''crawl''),
       Print ArchiveFinished, Print (FinalSize 4096), Print (ViewUrl ''https://view.example/arc_1''),
       Call Close], 0)"
  using example_stream_reports_and_exit
          [where env = env_with_key and url = "''https://example.com''" and loop_time = "''0.5''"
             and client = "client_streaming [Yield (upd ''processing'' 10),
                             Yield (upd ''processing'' 55), Yield (upd ''completed'' 100)]"
             and h = handle0 and ?u1.0 = "upd ''processing'' 10" and ?u2.0 = "upd ''processing'' 55"
             and ?u3.0 = "upd ''completed'' 100" and U = "''https://view.example/arc_1''"
             and prog = "''simple_archive.py''"]
  by (simp add: env_with_key_def client_streaming_def handle0_def upd_def getenv_def)

text \<open>
  C8, as the claim states it: on the stream of the example the loop prints two progress
  lines, one for each processing update, and not three.
\<close>

theorem example_stream_two_progress_reports:
  "length (filter is_progress (printed (fst (monitor
      [Yield (upd ''processing'' 10), Yield (upd ''processing'' 55),
       Yield (upd ''completed'' 100)])))) = 2
   \<and> length (filter is_progress (printed (fst (monitor
      [Yield (upd ''processing'' 10), Yield (upd ''processing'' 55),
       Yield (upd ''completed'' 100)])))) \<noteq> 3"
  by (simp add: upd_def)

section \<open>Submission\<close>

text \<open>
  C9. When the client acknowledges the submission with \<open>h\<close>, the run of \<^verbatim>\<open>archive_url\<close>
  submits exactly one request, for the given url with the options include_assets = True,
  max_depth = 2, preserve_javascript = False, timeout = 30, and the one identifier and the one
  cost it reports are those of \<open>h\<close>.
\<close>

theorem submission_defaults_and_reported_handle:
  assumes "archives_create client url (metadata url loop_time) options = Inr h"
  shows "submitted_requests (fst (archive_url env url loop_time client)) =
           [(url, metadata url loop_time,
             \<lparr>include_assets = True, max_depth = 2, preserve_javascript = False, timeout = 30\<rparr>)]
       \<and> reported_ids (fst (archive_url env url loop_time client)) = [archive_id h]
       \<and> reported_costs (fst (archive_url env url loop_time client)) = [total_cost (cost_estimation h)]"
proof -
  obtain evs raised unread
    where m: "monitor (stream_archive_updates client (archive_id h)) = (evs, raised, unread)"
    by (cases "monitor (stream_archive_updates client (archive_id h))") auto
  note quiet = monitor_reports_no_handle [OF m]
  show ?thesis
    using assms m quiet
    by (cases raised)
       (simp_all add: archive_url_def Let_def submitted_requests_append reported_ids_append
          reported_costs_append options_def)
qed

theorem submission_defaults_and_reported_handle_witness:
  "archives_create (client_streaming [Yield (upd ''completed'' 100)]) ''https://example.com''
       (metadata ''https://example.com'' ''0.5'') options = Inr handle0
   \<and> submitted_requests (fst (archive_url env_with_key ''https://example.com'' ''0.5''
         (client_streaming [Yield (upd ''completed'' 100)]))) =
           [(''https://example.com'', metadata ''https://example.com'' ''0.5'',
             \<lparr>include_assets = True, max_depth = 2, preserve_javascript = False, timeout = 30\<rparr>)]
   \<and> reported_ids (fst (archive_url env_with_key ''https://example.com'' ''0.5''
         (client_streaming [Yield (upd ''completed'' 100)]))) = [''arc_1'']
   \<and> reported_costs (fst (archive_url env_with_key ''https://example.com'' ''0.5''
         (client_streaming [Yield (upd ''completed'' 100)]))) = [7]"
proof -
  have h: "archives_create (client_streaming [Yield (upd ''completed'' 100)]) ''https://example.com''
             (metadata ''https://example.com'' ''0.5'') options = Inr handle0"
    by (simp add: client_streaming_def)
  show ?thesis
    using h submission_defaults_and_reported_handle [OF h, of env_with_key]
    by (simp add: handle0_def)
qed

section \<open>Releasing the client\<close>

text \<open>
  C6, as the script behaves. Every run of \<^verbatim>\<open>archive_url\<close> and every run of
  \<^verbatim>\<open>get_archive_info\<close> calls \<^verbatim>\<open>close\<close> on its client exactly once, whatever the client
  answers or raises (a validation, transport or not-found error, a failed update, or success).
\<close>

theorem operations_close_client_once:
  "count_list (calls_of (fst (archive_url env url loop_time client))) Close = 1
   \<and> count_list (calls_of (fst (get_archive_info env ident client))) Close = 1"
  by (auto simp: archive_url_def get_archive_info_def Let_def calls_of_append monitor_calls
      split: sum.splits prod.splits option.splits)

text \<open>
  C6, as the claim states it: when the url fails the validation of \<^verbatim>\<open>main\<close>, the run ends
  with exit code 1, no client was constructed and \<^verbatim>\<open>close\<close> was called zero times, not once.
\<close>

theorem invalid_url_never_closes_client:
  "snd (main env_with_key [''simple_archive.py'', ''example.com''] ''0.5'' (client_streaming [])) = 1
   \<and> count_list (calls_of (fst (main env_with_key [''simple_archive.py'', ''example.com''] ''0.5''
         (client_streaming [])))) Close = 0
   \<and> count_list (calls_of (fst (main env_with_key [''simple_archive.py'', ''example.com''] ''0.5''
         (client_streaming [])))) Close \<noteq> 1"
  by (simp add: main_def env_with_key_def)

section \<open>Errors of the lookup\<close>

text \<open>
  C7, as the script behaves. When the lookup raises an error \<open>e\<close> of any kind,
  the events of \<^verbatim>\<open>get_archive_info\<close> are the construction of the client, the lookup, the
  retrieval-error line with the message of \<open>e\<close>, and the close of the client; the kind of \<open>e\<close>
  is not part of what is reported. How the coroutine ends is not part of the statement.
\<close>

theorem lookup_error_reported_by_message:
  assumes "archives_get client ident = Inl e"
  shows "fst (get_archive_info env ident client) =
           [Call (Construct (env ''ARCHIVECHAIN_API_KEY'')
                    (getenv env ''ARCHIVECHAIN_API_URL'' default_api_url) None),
            Print (FetchingInfo ident), Call (Get ident),
            Print (RetrievalError (message e)), Call Close]"
  using assms by (simp add: get_archive_info_def)

theorem lookup_error_reported_by_message_witness:
  "archives_get (client_lookup_raising (NotFoundError ''no such archive'')) ''unknown-id''
       = Inl (NotFoundError ''no such archive'')
   \<and> fst (get_archive_info env_with_key ''unknown-id''
         (client_lookup_raising (NotFoundError ''no such archive''))) =
           [Call (Construct (Some ''k-123'') default_api_url None),
            Print (FetchingInfo ''unknown-id''), Call (Get ''unknown-id''),
            Print (RetrievalError ''no such archive''), Call Close]"
  using lookup_error_reported_by_message
          [of "client_lookup_raising (NotFoundError ''no such archive'')" "''unknown-id''"
              "NotFoundError ''no such archive''" env_with_key]
  by (simp add: client_lookup_raising_def env_with_key_def getenv_def)

text \<open>
  C7, as the claim states it: a lookup that raises NotFoundError and a lookup that raises
  TransportError with the same message give the same run of \<^verbatim>\<open>main\<close>, the same events and
  the same exit code, so the caller cannot tell the two apart.
\<close>

theorem lookup_error_kind_not_observable:
  "main env_with_key [''simple_archive.py'', ''info'', ''unknown-id''] ''0.5''
       (client_lookup_raising (NotFoundError ''no such archive''))
   = main env_with_key [''simple_archive.py'', ''info'', ''unknown-id''] ''0.5''
       (client_lookup_raising (TransportError ''no such archive''))"
  by (simp add: main_def get_archive_info_def client_lookup_raising_def env_with_key_def)

end
